theory Spec2Isabelle
  imports Complex_Main "HOL-Library.Multiset"
begin

section \<open>OpenPlag PRO: the evidence pipeline of \<open>main.py\<close>\<close>

text \<open>
  The program is a single Python module. Its pure parts (sentence splitting, line
  cleaning, sorting, thresholds) are embedded as HOL functions. Everything it reaches
  through a library (pypdf, python-docx, sqlite3, requests, BeautifulSoup, DuckDuckGo,
  the sentence-transformer model, streamlit) is a field of the record \<open>env\<close> or an event
  of the trace that every effectful function threads.

  Conventions.
  \<^item> A Python \<open>str\<close> is a \<open>string\<close>; one \<open>char\<close> stands for one code point, so the model
    covers texts over the code points below 256. \<open>bytes\<close> are strings as well.
  \<^item> A Python \<open>float\<close> score is a \<open>real\<close>; the literals \<open>0.3\<close>, \<open>0.4\<close>, \<open>0.5\<close>, \<open>0.8\<close> are
    the thresholds they denote. Only comparisons of scores are modelled, and a score is
    assumed to be a number (not NaN).
  \<^item> An exception is a value \<open>Inl e\<close> of a sum type; \<open>str e\<close> is Python's \<open>str(e)\<close>.
\<close>

subsection \<open>Strings\<close>

type_synonym bytes = string

datatype exn = Exception (str: string)

definition ord :: "char \<Rightarrow> nat" where
  "ord c = of_char c"

text \<open>\<open>str.isspace\<close>, which is also the class \<open>\s\<close> of \<open>re\<close> on \<open>str\<close> patterns.\<close>

definition isspace :: "char \<Rightarrow> bool" where
  "isspace c = (let n = ord c in
     (9 \<le> n \<and> n \<le> 13) \<or> (28 \<le> n \<and> n \<le> 32) \<or> n = 133 \<or> n = 160)"

text \<open>The class \<open>\w\<close> of \<open>re\<close>: alphanumeric code points and the underscore.\<close>

definition isword :: "char \<Rightarrow> bool" where
  "isword c = (let n = ord c in
     (48 \<le> n \<and> n \<le> 57) \<or> (65 \<le> n \<and> n \<le> 90) \<or> n = 95 \<or> (97 \<le> n \<and> n \<le> 122)
     \<or> n = 170 \<or> n = 178 \<or> n = 179 \<or> n = 181 \<or> n = 185 \<or> n = 186
     \<or> (188 \<le> n \<and> n \<le> 190) \<or> (192 \<le> n \<and> n \<le> 214) \<or> (216 \<le> n \<and> n \<le> 246)
     \<or> (248 \<le> n \<and> n \<le> 255))"

definition isupper_az :: "char \<Rightarrow> bool" where
  "isupper_az c = (65 \<le> ord c \<and> ord c \<le> 90)"

definition islower_az :: "char \<Rightarrow> bool" where
  "islower_az c = (97 \<le> ord c \<and> ord c \<le> 122)"

text \<open>\<open>s.strip()\<close>\<close>

definition strip :: "string \<Rightarrow> string" where
  "strip s = rev (dropWhile isspace (rev (dropWhile isspace s)))"

text \<open>\<open>sep.join(xs)\<close>\<close>

fun join :: "string \<Rightarrow> string list \<Rightarrow> string" where
  "join sep [] = []"
| "join sep [x] = x"
| "join sep (x # y # ys) = x @ sep @ join sep (y # ys)"

text \<open>
  \<open>s.splitlines()\<close>: a line ends at \<open>\r\n\<close>, \<open>\n\<close>, \<open>\r\<close>, \<open>\v\<close>, \<open>\f\<close>, \<open>\x1c\<close>, \<open>\x1d\<close>, \<open>\x1e\<close>
  or \<open>\x85\<close>; the terminators are dropped and a final terminator opens no empty line.
\<close>

definition islinebreak :: "char \<Rightarrow> bool" where
  "islinebreak c = (let n = ord c in (10 \<le> n \<and> n \<le> 13) \<or> (28 \<le> n \<and> n \<le> 30) \<or> n = 133)"

definition push_char :: "char \<Rightarrow> string list \<Rightarrow> string list" where
  "push_char c ls = (case ls of [] \<Rightarrow> [[c]] | l # ls' \<Rightarrow> (c # l) # ls')"

fun splitlines :: "string \<Rightarrow> string list" where
  "splitlines [] = []"
| "splitlines [c] = (if islinebreak c then [[]] else [[c]])"
| "splitlines (c # d # cs) =
     (if ord c = 13 \<and> ord d = 10 then [] # splitlines cs
      else if islinebreak c then [] # splitlines (d # cs)
      else push_char c (splitlines (d # cs)))"

text \<open>\<open>s.split("  ")\<close>: cut at each double space, scanning from the left.\<close>

fun split_double_space :: "string \<Rightarrow> string list" where
  "split_double_space [] = [[]]"
| "split_double_space [c] = [[c]]"
| "split_double_space (c # d # cs) =
     (if ord c = 32 \<and> ord d = 32 then [] # split_double_space cs
      else push_char c (split_double_space (d # cs)))"

text \<open>\<open>s.split(sep)\<close> for a one-character separator, and \<open>s.lower()\<close>.\<close>

fun split_char :: "char \<Rightarrow> string \<Rightarrow> string list" where
  "split_char sep [] = [[]]"
| "split_char sep (c # cs) =
     (if c = sep then [] # split_char sep cs else push_char c (split_char sep cs))"

definition lower_char :: "char \<Rightarrow> char" where
  "lower_char c = (let n = ord c in
     if (65 \<le> n \<and> n \<le> 90) \<or> (192 \<le> n \<and> n \<le> 222 \<and> n \<noteq> 215) then char_of (n + 32) else c)"

definition lower :: "string \<Rightarrow> string" where
  "lower s = map lower_char s"

text \<open>
  \<open>sorted(xs, key=f, reverse=True)\<close>: descending by key, and stable (elements with equal
  keys keep their order), which is a stable ascending sort of the reversed list, reversed.
\<close>

definition sorted_reverse :: "('a \<Rightarrow> 'k::linorder) \<Rightarrow> 'a list \<Rightarrow> 'a list" where
  "sorted_reverse f xs = rev (sort_key f (rev xs))"

text \<open>\<open>xs[:n]\<close> for a Python integer \<open>n\<close>: a negative \<open>n\<close> counts from the end.\<close>

definition slice_to :: "int \<Rightarrow> 'a list \<Rightarrow> 'a list" where
  "slice_to n xs = (if 0 \<le> n then take (nat n) xs else take (length xs - nat (- n)) xs)"

subsection \<open>File parsing\<close>

text \<open>
  \<open>pypdf.PdfReader(file)\<close> raises or gives the pages, and \<open>page.extract_text()\<close> raises or
  gives the text of a page: the reader is a function from the file to \<open>exn +\<close> a list of
  page results. \<open>docx.Document(file)\<close> raises or gives the texts of the paragraphs.
\<close>

fun pdf_pages :: "string \<Rightarrow> (exn + string) list \<Rightarrow> exn + string" where
  "pdf_pages text [] = Inr text"
| "pdf_pages text (page # pages) =
     (case page of Inl e \<Rightarrow> Inl e | Inr t \<Rightarrow> pdf_pages (text @ t @ [CHR 0x0A]) pages)"

definition extract_text_from_pdf :: "(bytes \<Rightarrow> exn + (exn + string) list) \<Rightarrow> bytes \<Rightarrow> string" where
  "extract_text_from_pdf PdfReader file =
     (case (case PdfReader file of Inl e \<Rightarrow> Inl e | Inr pages \<Rightarrow> pdf_pages [] pages) of
        Inr text \<Rightarrow> text
      | Inl e \<Rightarrow> str e)"

definition extract_text_from_docx :: "(bytes \<Rightarrow> exn + string list) \<Rightarrow> bytes \<Rightarrow> string" where
  "extract_text_from_docx Document file =
     (case Document file of
        Inr paragraphs \<Rightarrow> join [CHR 0x0A] paragraphs
      | Inl e \<Rightarrow> str e)"

subsection \<open>Database management\<close>

text \<open>
  The table \<open>submissions\<close> of \<open>init_db\<close>: an \<open>AUTOINCREMENT\<close> primary key and a \<open>UNIQUE\<close>
  column \<open>content_hash\<close>. A database file is \<open>None\<close> while it has no such table.
  \<open>seq\<close> is the largest row id ever given out (SQLite's \<open>sqlite_sequence\<close>).
\<close>

record submission =
  sub_id :: nat
  student_name :: string
  filename :: string
  content :: string
  content_hash :: string

record submissions =
  rows :: "submission list"
  seq :: nat

type_synonym database = "submissions option"

definition init_db :: "database \<Rightarrow> database" where
  "init_db db = (case db of None \<Rightarrow> Some \<lparr>rows = [], seq = 0\<rparr> | Some t \<Rightarrow> Some t)"

definition next_id :: "submissions \<Rightarrow> nat" where
  "next_id t = Suc (fold max (map sub_id (rows t)) (seq t))"

text \<open>
  \<open>save_to_db\<close>. \<open>md5\<close> stands for \<open>hashlib.md5(content.encode('utf-8')).hexdigest()\<close>.
  The \<open>INSERT\<close> raises \<open>sqlite3.IntegrityError\<close> when the hash is in the table, which the
  function turns into \<open>False\<close>; no other exception is caught, so the missing table
  (\<open>sqlite3.OperationalError\<close>) leaves the function as an exception.
\<close>

definition save_to_db ::
  "(string \<Rightarrow> string) \<Rightarrow> string \<Rightarrow> string \<Rightarrow> string \<Rightarrow> database \<Rightarrow> (exn + bool) \<times> database" where
  "save_to_db md5 name file_name text db =
     (let hash = md5 text in
      case db of
        None \<Rightarrow> (Inl (Exception ''no such table: submissions''), db)
      | Some t \<Rightarrow>
          if hash \<in> content_hash ` set (rows t) then (Inr False, db)
          else (Inr True,
                Some \<lparr>rows = rows t @ [\<lparr>sub_id = next_id t, student_name = name,
                                         filename = file_name, content = text,
                                         content_hash = hash\<rparr>],
                      seq = next_id t\<rparr>))"

definition fetch_internal_db :: "database \<Rightarrow> exn + (string \<times> string \<times> string) list" where
  "fetch_internal_db db =
     (case db of
        None \<Rightarrow> Inl (Exception ''no such table: submissions'')
      | Some t \<Rightarrow> Inr (map (\<lambda>r. (student_name r, filename r, content r)) (rows t)))"

definition archive :: "database \<Rightarrow> submission list" where
  "archive db = (case db of None \<Rightarrow> [] | Some t \<Rightarrow> rows t)"

subsection \<open>The outside world and the trace\<close>

text \<open>
  Every call that leaves the module and every streamlit widget the analysis writes is an
  event. The effectful functions take the trace so far and return it extended, so the
  order of the calls can be read off.
\<close>

datatype event =
    Ddgs_text string nat
  | Sleep
  | Requests_get string
  | Similarity string string
  | St_progress
  | St_bar_progress nat nat string
  | St_bar_empty
  | St_error_too_short
  | St_divider
  | St_subheader_report
  | St_success_clean
  | St_error_critical real
  | St_warning_moderate real
  | St_write_top_sources
  | St_progress_match real string

record response =
  status_code :: nat
  body :: bytes

text \<open>
  The libraries. \<open>ddgs_text\<close> and \<open>requests_get\<close> see the trace so far, so their answers
  may change from one call to the next; a search result is a dictionary.
  \<open>soup_get_text\<close> is \<open>BeautifulSoup(content, 'html.parser')\<close>, the removal of the script
  and style elements and \<open>get_text()\<close>. \<open>set_order\<close> ranks the elements of a Python
  \<open>set\<close> in the order its iteration yields them, which Python leaves open.
  \<open>cos_sim\<close> is the encoding of the two texts and \<open>pytorch_cos_sim\<close>.
\<close>

record env =
  PdfReader :: "bytes \<Rightarrow> exn + (exn + string) list"
  Document :: "bytes \<Rightarrow> exn + string list"
  decode_utf8 :: "bytes \<Rightarrow> exn + string"
  ddgs_text :: "event list \<Rightarrow> string \<Rightarrow> nat \<Rightarrow> exn + (string \<rightharpoonup> string) list"
  requests_get :: "event list \<Rightarrow> string \<Rightarrow> exn + response"
  soup_get_text :: "bytes \<Rightarrow> exn + string"
  set_order :: "string \<Rightarrow> nat"
  cos_sim :: "string \<Rightarrow> string \<Rightarrow> real"

subsection \<open>The scraper\<close>

text \<open>Lines 100 to 105 of \<open>scrape_url_content\<close>: the cleaning of the page text.\<close>

definition clean_text :: "string \<Rightarrow> string" where
  "clean_text text =
     (let lines = [strip line. line \<leftarrow> splitlines text];
          chunks = [strip phrase. line \<leftarrow> lines, phrase \<leftarrow> split_double_space line]
      in join [CHR 0x0A] [chunk \<leftarrow> chunks. chunk \<noteq> []])"

text \<open>The body of the \<open>try\<close>, and the function with its bare \<open>except\<close>.\<close>

definition scrape_try :: "env \<Rightarrow> event list \<Rightarrow> string \<Rightarrow> exn + string" where
  "scrape_try env tr url =
     (case requests_get env tr url of
        Inl e \<Rightarrow> Inl e
      | Inr response \<Rightarrow>
          (case soup_get_text env (body response) of
             Inl e \<Rightarrow> Inl e
           | Inr text \<Rightarrow> Inr (take 10000 (clean_text text))))"

definition scrape_url_content :: "env \<Rightarrow> event list \<Rightarrow> string \<Rightarrow> string \<times> event list" where
  "scrape_url_content env tr url =
     (case scrape_try env tr url of
        Inr text \<Rightarrow> (text, tr @ [Requests_get url])
      | Inl e \<Rightarrow> ([], tr @ [Requests_get url]))"

subsection \<open>The web search\<close>

text \<open>
  \<open>re.split(r'(?<!\w\.\w.)(?<![A-Z][a-z]\.)(?<=\.|\?)\s', text)\<close>. The pattern matches one
  white-space character; the three look-behinds read the characters before it.
  \<open>prev\<close> is the text before the position, last character first.
\<close>

definition sentence_end :: "string \<Rightarrow> char \<Rightarrow> bool" where
  "sentence_end prev c =
     (\<not> (case prev of
           p1 # p2 # p3 # p4 # _ \<Rightarrow> isword p4 \<and> p3 = CHR ''.'' \<and> isword p2 \<and> ord p1 \<noteq> 10
         | _ \<Rightarrow> False)
    \<and> \<not> (case prev of
           p1 # p2 # p3 # _ \<Rightarrow> isupper_az p3 \<and> islower_az p2 \<and> p1 = CHR ''.''
         | _ \<Rightarrow> False)
    \<and> (case prev of p1 # _ \<Rightarrow> p1 = CHR ''.'' \<or> p1 = CHR ''?'' | _ \<Rightarrow> False)
    \<and> isspace c)"

fun re_split_from :: "string \<Rightarrow> string \<Rightarrow> string list" where
  "re_split_from prev [] = [[]]"
| "re_split_from prev (c # cs) =
     (if sentence_end prev c then [] # re_split_from (c # prev) cs
      else push_char c (re_split_from (c # prev) cs))"

definition re_split :: "string \<Rightarrow> string list" where
  "re_split text = re_split_from [] text"

definition long_sentences :: "string \<Rightarrow> int \<Rightarrow> string list" where
  "long_sentences text num_queries =
     slice_to num_queries (sorted_reverse length [s \<leftarrow> re_split text. length s > 40])"

text \<open>
  The inner loop \<open>for res in results: potential_sources.append(res['href'])\<close>. A result
  without the key raises \<open>KeyError\<close>, which ends the loop and keeps what was appended;
  the flag tells whether the loop ran to its end.
\<close>

fun append_hrefs :: "string list \<Rightarrow> (string \<rightharpoonup> string) list \<Rightarrow> string list \<times> bool" where
  "append_hrefs potential_sources [] = (potential_sources, True)"
| "append_hrefs potential_sources (res # results) =
     (case res ''href'' of
        None \<Rightarrow> (potential_sources, False)
      | Some href \<Rightarrow> append_hrefs (potential_sources @ [href]) results)"

text \<open>The loop over the queries, with its \<open>try\<close> and bare \<open>except: pass\<close>.\<close>

fun search_loop ::
  "env \<Rightarrow> string list \<Rightarrow> string list \<Rightarrow> event list \<Rightarrow> string list \<times> event list" where
  "search_loop env [] potential_sources tr = (potential_sources, tr)"
| "search_loop env (query # queries) potential_sources tr =
     (case ddgs_text env tr (take 200 query) 2 of
        Inl e \<Rightarrow> search_loop env queries potential_sources (tr @ [Ddgs_text (take 200 query) 2])
      | Inr results \<Rightarrow>
          (case append_hrefs potential_sources results of
             (potential_sources', True) \<Rightarrow>
               search_loop env queries potential_sources'
                 (tr @ [Ddgs_text (take 200 query) 2, Sleep])
           | (potential_sources', False) \<Rightarrow>
               search_loop env queries potential_sources'
                 (tr @ [Ddgs_text (take 200 query) 2])))"

text \<open>\<open>list(set(potential_sources))\<close>\<close>

definition list_set :: "env \<Rightarrow> string list \<Rightarrow> string list" where
  "list_set env xs = sort_key (set_order env) (remdups xs)"

record evidence =
  ev_source :: string
  ev_content :: string
  ev_type :: string

text \<open>The loop \<open>for i, url in enumerate(unique_urls)\<close>; \<open>n\<close> is \<open>len(unique_urls)\<close>.\<close>

fun scrape_loop ::
  "env \<Rightarrow> nat \<Rightarrow> nat \<Rightarrow> string list \<Rightarrow> evidence list \<Rightarrow> event list
     \<Rightarrow> evidence list \<times> event list" where
  "scrape_loop env n i [] scraped_data tr = (scraped_data, tr)"
| "scrape_loop env n i (url # urls) scraped_data tr =
     (case scrape_url_content env tr url of
        (text, tr') \<Rightarrow>
          scrape_loop env n (i + 1) urls
            (if text \<noteq> []
             then scraped_data @ [\<lparr>ev_source = url, ev_content = text, ev_type = ''Web''\<rparr>]
             else scraped_data)
            (tr' @ [St_bar_progress (i + 1) n url]))"

definition collected_sources :: "env \<Rightarrow> event list \<Rightarrow> string \<Rightarrow> int \<Rightarrow> string list" where
  "collected_sources env tr text num_queries =
     fst (search_loop env (long_sentences text num_queries) [] tr)"

definition deep_web_search ::
  "env \<Rightarrow> event list \<Rightarrow> string \<Rightarrow> int \<Rightarrow> evidence list \<times> event list" where
  "deep_web_search env tr text num_queries =
     (case search_loop env (long_sentences text num_queries) [] tr of
        (potential_sources, tr1) \<Rightarrow>
          (let unique_urls = list_set env potential_sources in
           if unique_urls \<noteq> [] then
             (case scrape_loop env (length unique_urls) 0 unique_urls [] (tr1 @ [St_progress]) of
                (scraped_data, tr2) \<Rightarrow> (scraped_data, tr2 @ [St_bar_empty]))
           else ([], tr1)))"

subsection \<open>The analysis\<close>

record match =
  source :: string
  score :: real

text \<open>A. Internal check (lines 225 to 229).\<close>

fun internal_check ::
  "env \<Rightarrow> string \<Rightarrow> (string \<times> string \<times> string) list \<Rightarrow> match list \<Rightarrow> event list
     \<Rightarrow> match list \<times> event list" where
  "internal_check env extracted_text [] internal_matches tr = (internal_matches, tr)"
| "internal_check env extracted_text ((db_name, db_file, db_content) # db_data) internal_matches tr =
     (let sim_score = cos_sim env extracted_text db_content in
      internal_check env extracted_text db_data
        (if sim_score > 0.4
         then internal_matches @
              [\<lparr>source = ''Internal: '' @ db_name @ '' ('' @ db_file @ '')'', score = sim_score\<rparr>]
         else internal_matches)
        (tr @ [Similarity extracted_text db_content]))"

text \<open>B. External check, the loop over the scraped sources (lines 235 to 238).\<close>

fun web_check ::
  "env \<Rightarrow> string \<Rightarrow> evidence list \<Rightarrow> match list \<Rightarrow> event list \<Rightarrow> match list \<times> event list" where
  "web_check env extracted_text [] web_matches tr = (web_matches, tr)"
| "web_check env extracted_text (src # scraped_sources) web_matches tr =
     (let sim_score = cos_sim env extracted_text (ev_content src) in
      web_check env extracted_text scraped_sources
        (if sim_score > 0.3
         then web_matches @ [\<lparr>source = ev_source src, score = sim_score\<rparr>]
         else web_matches)
        (tr @ [Similarity extracted_text (ev_content src)]))"

text \<open>C. Results display (lines 243 to 255): the widgets written and \<open>max_score\<close>.\<close>

definition results_display :: "match list \<Rightarrow> event list \<times> real" where
  "results_display all_matches =
     (case all_matches of
        [] \<Rightarrow> ([St_success_clean], 0)
      | best # _ \<Rightarrow>
          (let max_score = score best in
           ((if max_score > 0.8 then [St_error_critical max_score]
             else if max_score > 0.5 then [St_warning_moderate max_score]
             else [])
            @ [St_write_top_sources]
            @ [St_progress_match (score m) (source m). m \<leftarrow> take 5 all_matches],
            max_score)))"

record report =
  internal_matches :: "match list"
  web_matches :: "match list"
  all_matches :: "match list"
  max_score :: real
  trace :: "event list"

text \<open>The \<open>else\<close> branch of the length test (lines 221 to 255).\<close>

definition analysis :: "env \<Rightarrow> event list \<Rightarrow> string \<Rightarrow> (string \<times> string \<times> string) list \<Rightarrow> report" where
  "analysis env tr extracted_text db_data =
     (case internal_check env extracted_text db_data [] (tr @ [St_divider, St_subheader_report]) of
        (internal, tr1) \<Rightarrow>
     (case deep_web_search env tr1 extracted_text 3 of
        (scraped_sources, tr2) \<Rightarrow>
     (case web_check env extracted_text scraped_sources [] tr2 of
        (web, tr3) \<Rightarrow>
     (let sorted_matches = sorted_reverse score (internal @ web) in
      case results_display sorted_matches of
        (shown, top_score) \<Rightarrow>
          \<lparr>internal_matches = internal, web_matches = web, all_matches = sorted_matches,
           max_score = top_score, trace = tr3 @ shown\<rparr>))))"

text \<open>The block under \<open>if check_btn:\<close> (lines 217 to 255).\<close>

definition rigorous_check ::
  "env \<Rightarrow> event list \<Rightarrow> string \<Rightarrow> (string \<times> string \<times> string) list \<Rightarrow> report option \<times> event list" where
  "rigorous_check env tr extracted_text db_data =
     (if length extracted_text < 50 then (None, tr @ [St_error_too_short])
      else (let r = analysis env tr extracted_text db_data in (Some r, trace r)))"

text \<open>
  The upload block (lines 200 to 255, without the preview and the archive button): the
  text is extracted by the file extension, and the check runs on it when the button is
  pressed. Decoding a plain file may raise, and nothing catches that.
\<close>

record uploaded_file =
  upload_name :: string
  upload_data :: bytes

definition file_ext :: "uploaded_file \<Rightarrow> string" where
  "file_ext f = lower (last (split_char (CHR ''.'') (upload_name f)))"

definition extract_text :: "env \<Rightarrow> uploaded_file \<Rightarrow> exn + string" where
  "extract_text env f =
     (if file_ext f = ''pdf'' then Inr (extract_text_from_pdf (PdfReader env) (upload_data f))
      else if file_ext f = ''docx'' then Inr (extract_text_from_docx (Document env) (upload_data f))
      else decode_utf8 env (upload_data f))"

definition main_upload ::
  "env \<Rightarrow> event list \<Rightarrow> string \<Rightarrow> uploaded_file option \<Rightarrow> bool \<Rightarrow> (string \<times> string \<times> string) list
     \<Rightarrow> exn + report option \<times> event list" where
  "main_upload env tr student uploaded check_btn db_data =
     (case uploaded of
        None \<Rightarrow> Inr (None, tr)
      | Some f \<Rightarrow>
          if student = [] then Inr (None, tr)
          else (case extract_text env f of
                  Inl e \<Rightarrow> Inl e
                | Inr extracted_text \<Rightarrow>
                    if check_btn then Inr (rigorous_check env tr extracted_text db_data)
                    else Inr (None, tr)))"

subsection \<open>Reading a trace\<close>

fun searched :: "event list \<Rightarrow> string list" where
  "searched [] = []"
| "searched (Ddgs_text q n # tr) = q # searched tr"
| "searched (e # tr) = searched tr"

fun fetched :: "event list \<Rightarrow> string list" where
  "fetched [] = []"
| "fetched (Requests_get url # tr) = url # fetched tr"
| "fetched (e # tr) = fetched tr"

fun scored :: "event list \<Rightarrow> (string \<times> string) list" where
  "scored [] = []"
| "scored (Similarity a b # tr) = (a, b) # scored tr"
| "scored (e # tr) = scored tr"

fun listed :: "event list \<Rightarrow> (real \<times> string) list" where
  "listed [] = []"
| "listed (St_progress_match x s # tr) = (x, s) # listed tr"
| "listed (e # tr) = listed tr"

fun banners :: "event list \<Rightarrow> event list" where
  "banners [] = []"
| "banners (St_success_clean # tr) = St_success_clean # banners tr"
| "banners (St_error_critical x # tr) = St_error_critical x # banners tr"
| "banners (St_warning_moderate x # tr) = St_warning_moderate x # banners tr"
| "banners (e # tr) = banners tr"

subsection \<open>Sample inputs\<close>

text \<open>
  One concrete run, used to evaluate the functions above. The document has two sentences
  of more than 40 characters; the search provider answers every query with the same two
  addresses; the first address answers with a 404 page, the second times out, and a third
  one answers with an empty body that the parser rejects; the archive holds one essay.
\<close>

definition demo_doc :: string where
  "demo_doc = ''The quick brown fox jumps over the lazy dog near the river bank. Is a second sentence, e.g. this one, also long enough to be a query? Short one.''"

definition plain_doc :: string where
  "plain_doc = ''Cats purr. Dogs bark. Birds sing. Fish swim. Cows moo. Ok.''"

definition short_doc :: string where
  "short_doc = ''Too short to analyse.''"

definition demo_db_data :: "(string \<times> string \<times> string) list" where
  "demo_db_data = [(''ann'', ''a.txt'', ''An archived essay about foxes and dogs.'')]"

definition demo_env :: env where
  "demo_env =
     \<lparr>PdfReader = (\<lambda>d. Inl (Exception ''EOF marker not found while reading the cross-reference table'')),
      Document = (\<lambda>d. Inl (Exception ''Package not found'')),
      decode_utf8 = Inr,
      ddgs_text = (\<lambda>tr q n. Inr [[''href'' \<mapsto> ''http://a.example/''],
                                   [''href'' \<mapsto> ''http://b.example/'']]),
      requests_get = (\<lambda>tr url.
         if url = ''http://a.example/''
           then Inr \<lparr>status_code = 404, body = ''Not Found  The page is gone''\<rparr>
         else if url = ''http://c.example/'' then Inr \<lparr>status_code = 200, body = []\<rparr>
         else Inl (Exception ''timed out'')),
      soup_get_text = (\<lambda>b. if b = [] then Inl (Exception ''no markup'') else Inr b),
      set_order = length,
      cos_sim = (\<lambda>a b. if b = ''An archived essay about foxes and dogs.'' then 0.45 else 0.35)\<rparr>"

definition demo_pdf :: uploaded_file where
  "demo_pdf = \<lparr>upload_name = ''essay.PDF'', upload_data = ''%PDF-1.7 truncated''\<rparr>"

definition demo_docx :: uploaded_file where
  "demo_docx = \<lparr>upload_name = ''essay.v2.docx'', upload_data = ''PK''\<rparr>"

definition demo_txt :: uploaded_file where
  "demo_txt = \<lparr>upload_name = ''essay.txt'',
               upload_data = ''EOF marker not found while reading the cross-reference table''\<rparr>"

definition demo_db :: database where
  "demo_db = Some \<lparr>rows = [\<lparr>sub_id = 1, student_name = ''ann'', filename = ''a.txt'',
                             content = ''An essay.'', content_hash = ''An essay.''\<rparr>],
                   seq = 1\<rparr>"

section \<open>Theorems\<close>

subsection \<open>Reading the trace of each loop\<close>

lemma searched_append: "searched (a @ b) = searched a @ searched b"
  by (induction a rule: searched.induct) simp_all

lemma fetched_append: "fetched (a @ b) = fetched a @ fetched b"
  by (induction a rule: fetched.induct) simp_all

lemma scored_append: "scored (a @ b) = scored a @ scored b"
  by (induction a rule: scored.induct) simp_all

lemma listed_append: "listed (a @ b) = listed a @ listed b"
  by (induction a rule: listed.induct) simp_all

lemma banners_append: "banners (a @ b) = banners a @ banners b"
  by (induction a rule: banners.induct) simp_all

lemmas reads_append =
  searched_append fetched_append scored_append listed_append banners_append

lemma internal_check_reads:
  "searched (snd (internal_check env doc db ms tr)) = searched tr
 \<and> fetched (snd (internal_check env doc db ms tr)) = fetched tr
 \<and> scored (snd (internal_check env doc db ms tr)) =
     scored tr @ map (\<lambda>(n, f, c). (doc, c)) db
 \<and> listed (snd (internal_check env doc db ms tr)) = listed tr
 \<and> banners (snd (internal_check env doc db ms tr)) = banners tr"
  by (induction env doc db ms tr rule: internal_check.induct)
     (simp_all add: reads_append Let_def)

lemma web_check_reads:
  "searched (snd (web_check env doc srcs ms tr)) = searched tr
 \<and> fetched (snd (web_check env doc srcs ms tr)) = fetched tr
 \<and> scored (snd (web_check env doc srcs ms tr)) =
     scored tr @ map (\<lambda>s. (doc, ev_content s)) srcs
 \<and> listed (snd (web_check env doc srcs ms tr)) = listed tr
 \<and> banners (snd (web_check env doc srcs ms tr)) = banners tr"
  by (induction env doc srcs ms tr rule: web_check.induct)
     (simp_all add: reads_append Let_def)

lemma search_loop_reads:
  "searched (snd (search_loop env qs ps tr)) = searched tr @ map (take 200) qs
 \<and> fetched (snd (search_loop env qs ps tr)) = fetched tr
 \<and> scored (snd (search_loop env qs ps tr)) = scored tr
 \<and> listed (snd (search_loop env qs ps tr)) = listed tr
 \<and> banners (snd (search_loop env qs ps tr)) = banners tr"
  by (induction env qs ps tr rule: search_loop.induct)
     (simp_all add: reads_append split: sum.splits prod.splits bool.splits)

lemma scrape_url_content_trace: "snd (scrape_url_content env tr url) = tr @ [Requests_get url]"
  by (simp add: scrape_url_content_def split: sum.splits)

lemma scrape_loop_reads:
  "searched (snd (scrape_loop env n i urls sd tr)) = searched tr
 \<and> fetched (snd (scrape_loop env n i urls sd tr)) = fetched tr @ urls
 \<and> scored (snd (scrape_loop env n i urls sd tr)) = scored tr
 \<and> listed (snd (scrape_loop env n i urls sd tr)) = listed tr
 \<and> banners (snd (scrape_loop env n i urls sd tr)) = banners tr"
proof (induction env n i urls sd tr rule: scrape_loop.induct)
  case (1 env n i sd tr)
  show ?case by simp
next
  case (2 env n i url urls sd tr)
  obtain doc where t: "scrape_url_content env tr url = (doc, tr @ [Requests_get url])"
    using scrape_url_content_trace [of env tr url]
    by (cases "scrape_url_content env tr url") simp
  show ?case
    using "2.IH" [OF t [symmetric]] by (simp add: t reads_append)
qed

lemma deep_web_search_reads:
  "searched (snd (deep_web_search env tr doc n)) =
     searched tr @ map (take 200) (long_sentences doc n)
 \<and> fetched (snd (deep_web_search env tr doc n)) =
     fetched tr @ list_set env (collected_sources env tr doc n)
 \<and> scored (snd (deep_web_search env tr doc n)) = scored tr
 \<and> listed (snd (deep_web_search env tr doc n)) = listed tr
 \<and> banners (snd (deep_web_search env tr doc n)) = banners tr"
proof -
  obtain ps tr1 where s: "search_loop env (long_sentences doc n) [] tr = (ps, tr1)"
    by (cases "search_loop env (long_sentences doc n) [] tr")
  have r1: "searched tr1 = searched tr @ map (take 200) (long_sentences doc n)"
    "fetched tr1 = fetched tr" "scored tr1 = scored tr" "listed tr1 = listed tr"
    "banners tr1 = banners tr"
    using search_loop_reads [of env "long_sentences doc n" "[]" tr] by (simp_all add: s)
  have ps: "collected_sources env tr doc n = ps"
    by (simp add: collected_sources_def s)
  show ?thesis
  proof (cases "list_set env ps = []")
    case True
    then show ?thesis
      by (simp add: deep_web_search_def s ps r1)
  next
    case False
    obtain sd tr2 where l:
      "scrape_loop env (length (list_set env ps)) 0 (list_set env ps) [] (tr1 @ [St_progress])
         = (sd, tr2)"
      by (cases "scrape_loop env (length (list_set env ps)) 0 (list_set env ps) []
            (tr1 @ [St_progress])")
    have r2: "searched tr2 = searched tr1" "fetched tr2 = fetched tr1 @ list_set env ps"
      "scored tr2 = scored tr1" "listed tr2 = listed tr1" "banners tr2 = banners tr1"
      using scrape_loop_reads [of env "length (list_set env ps)" 0 "list_set env ps" "[]"
          "tr1 @ [St_progress]"]
      by (simp_all add: l reads_append)
    show ?thesis
      using False by (simp add: deep_web_search_def s ps l Let_def reads_append r1 r2)
  qed
qed

lemma reads_match_bars:
  "searched (map (\<lambda>m. St_progress_match (score m) (source m)) ms) = []"
  "fetched (map (\<lambda>m. St_progress_match (score m) (source m)) ms) = []"
  "scored (map (\<lambda>m. St_progress_match (score m) (source m)) ms) = []"
  "banners (map (\<lambda>m. St_progress_match (score m) (source m)) ms) = []"
  "listed (map (\<lambda>m. St_progress_match (score m) (source m)) ms) =
     map (\<lambda>m. (score m, source m)) ms"
  by (induction ms) simp_all

lemma results_display_reads:
  "searched (fst (results_display ms)) = []"
  "fetched (fst (results_display ms)) = []"
  "scored (fst (results_display ms)) = []"
  "listed (fst (results_display ms)) = map (\<lambda>m. (score m, source m)) (take 5 ms)"
  by (simp_all add: results_display_def Let_def reads_append reads_match_bars split: list.splits)

lemma results_display_banners:
  "banners (fst (results_display ms)) =
     (case ms of
        [] \<Rightarrow> [St_success_clean]
      | m # _ \<Rightarrow> if score m > 0.8 then [St_error_critical (score m)]
                else if score m > 0.5 then [St_warning_moderate (score m)] else [])"
  by (simp add: results_display_def Let_def reads_append reads_match_bars split: list.splits)

lemma results_display_max:
  "snd (results_display ms) = (case ms of [] \<Rightarrow> 0 | m # _ \<Rightarrow> score m)"
  by (simp add: results_display_def Let_def split: list.splits)

subsection \<open>Sorting\<close>

lemma mset_sorted_reverse: "mset (sorted_reverse f xs) = mset xs"
  by (simp add: sorted_reverse_def)

lemma set_sorted_reverse: "set (sorted_reverse f xs) = set xs"
  by (simp add: sorted_reverse_def)

lemma length_sorted_reverse: "length (sorted_reverse f xs) = length xs"
  by (simp add: sorted_reverse_def)

lemma sorted_reverse_descending: "sorted_wrt (\<lambda>a b. f b \<le> f a) (sorted_reverse f xs)"
proof -
  have "sorted (map f (sort_key f (rev xs)))"
    by (rule sorted_sort_key)
  then have "sorted_wrt (\<lambda>a b. f a \<le> f b) (sort_key f (rev xs))"
    by (simp add: sorted_wrt_map)
  then show ?thesis
    by (simp add: sorted_reverse_def sorted_wrt_rev)
qed

lemma sorted_wrt_take_drop:
  "sorted_wrt P xs \<Longrightarrow> x \<in> set (take k xs) \<Longrightarrow> y \<in> set (drop k xs) \<Longrightarrow> P x y"
proof -
  assume "sorted_wrt P xs"
  then have "sorted_wrt P (take k xs @ drop k xs)" by simp
  then show "x \<in> set (take k xs) \<Longrightarrow> y \<in> set (drop k xs) \<Longrightarrow> P x y"
    unfolding sorted_wrt_append by blast
qed

lemma long_sentences_take:
  "0 \<le> n \<Longrightarrow> long_sentences doc n =
     take (nat n) (sorted_reverse length (filter (\<lambda>s. length s > 40) (re_split doc)))"
  by (simp add: long_sentences_def slice_to_def)

subsection \<open>The stages of the analysis\<close>

lemma internal_check_matches:
  "fst (internal_check env doc db ms tr) =
     ms @ map (\<lambda>(n, f, c). \<lparr>source = ''Internal: '' @ n @ '' ('' @ f @ '')'',
                              score = cos_sim env doc c\<rparr>)
            (filter (\<lambda>(n, f, c). cos_sim env doc c > 0.4) db)"
  by (induction env doc db ms tr rule: internal_check.induct) (simp_all add: Let_def)

lemma web_check_matches:
  "fst (web_check env doc srcs ms tr) =
     ms @ map (\<lambda>s. \<lparr>source = ev_source s, score = cos_sim env doc (ev_content s)\<rparr>)
            (filter (\<lambda>s. cos_sim env doc (ev_content s) > 0.3) srcs)"
  by (induction env doc srcs ms tr rule: web_check.induct) (simp_all add: Let_def)

lemma internal_check_threshold:
  "m \<in> set (fst (internal_check env doc db [] tr)) \<Longrightarrow> score m > 0.4"
  by (auto simp: internal_check_matches)

lemma web_check_threshold:
  "m \<in> set (fst (web_check env doc srcs [] tr)) \<Longrightarrow> score m > 0.3"
  by (auto simp: web_check_matches)

lemma analysis_unfold:
  assumes "internal_check env doc db [] (tr @ [St_divider, St_subheader_report]) = (internal, tr1)"
    and "deep_web_search env tr1 doc 3 = (srcs, tr2)"
    and "web_check env doc srcs [] tr2 = (web, tr3)"
  shows "analysis env tr doc db =
    \<lparr>internal_matches = internal, web_matches = web,
     all_matches = sorted_reverse score (internal @ web),
     max_score = snd (results_display (sorted_reverse score (internal @ web))),
     trace = tr3 @ fst (results_display (sorted_reverse score (internal @ web)))\<rparr>"
  using assms by (simp add: analysis_def Let_def split: prod.splits)

lemma analysis_stages:
  obtains internal tr1 srcs tr2 web tr3 where
    "internal_check env doc db [] (tr @ [St_divider, St_subheader_report]) = (internal, tr1)"
    "deep_web_search env tr1 doc 3 = (srcs, tr2)"
    "web_check env doc srcs [] tr2 = (web, tr3)"
    "analysis env tr doc db =
      \<lparr>internal_matches = internal, web_matches = web,
       all_matches = sorted_reverse score (internal @ web),
       max_score = snd (results_display (sorted_reverse score (internal @ web))),
       trace = tr3 @ fst (results_display (sorted_reverse score (internal @ web)))\<rparr>"
proof -
  obtain internal tr1 where a:
    "internal_check env doc db [] (tr @ [St_divider, St_subheader_report]) = (internal, tr1)"
    by (cases "internal_check env doc db [] (tr @ [St_divider, St_subheader_report])")
  obtain srcs tr2 where b: "deep_web_search env tr1 doc 3 = (srcs, tr2)"
    by (cases "deep_web_search env tr1 doc 3")
  obtain web tr3 where c: "web_check env doc srcs [] tr2 = (web, tr3)"
    by (cases "web_check env doc srcs [] tr2")
  show ?thesis
    using that [OF a b c analysis_unfold [OF a b c]] .
qed

lemma analysis_thresholds:
  "m \<in> set (internal_matches (analysis env tr doc db)) \<Longrightarrow> score m > 0.4"
  "m \<in> set (web_matches (analysis env tr doc db)) \<Longrightarrow> score m > 0.3"
proof -
  obtain internal tr1 srcs tr2 web tr3 where s:
    "internal_check env doc db [] (tr @ [St_divider, St_subheader_report]) = (internal, tr1)"
    "deep_web_search env tr1 doc 3 = (srcs, tr2)"
    "web_check env doc srcs [] tr2 = (web, tr3)"
    and r: "analysis env tr doc db =
      \<lparr>internal_matches = internal, web_matches = web,
       all_matches = sorted_reverse score (internal @ web),
       max_score = snd (results_display (sorted_reverse score (internal @ web))),
       trace = tr3 @ fst (results_display (sorted_reverse score (internal @ web)))\<rparr>"
    by (rule analysis_stages)
  show "m \<in> set (internal_matches (analysis env tr doc db)) \<Longrightarrow> score m > 0.4"
    using internal_check_threshold [of m env doc db "tr @ [St_divider, St_subheader_report]"]
    by (simp add: r s)
  show "m \<in> set (web_matches (analysis env tr doc db)) \<Longrightarrow> score m > 0.3"
    using web_check_threshold [of m env doc srcs tr2] by (simp add: r s)
qed

lemma analysis_all_matches:
  "all_matches (analysis env tr doc db) =
     sorted_reverse score (internal_matches (analysis env tr doc db)
                           @ web_matches (analysis env tr doc db))"
  by (rule analysis_stages [of env doc db tr]) simp

lemma analysis_max_score:
  "max_score (analysis env tr doc db) =
     (case all_matches (analysis env tr doc db) of [] \<Rightarrow> 0 | m # _ \<Rightarrow> score m)"
  by (rule analysis_stages [of env doc db tr]) (simp add: results_display_max)

lemma analysis_reads:
  "searched (trace (analysis env tr doc db)) =
     searched tr @ map (take 200) (long_sentences doc 3)"
  "\<exists>srcs :: evidence list. scored (trace (analysis env tr doc db)) =
     scored tr @ map (\<lambda>(n, f, c). (doc, c)) db @ map (\<lambda>s. (doc, ev_content s)) srcs"
  "listed (trace (analysis env tr doc db)) =
     listed tr @ map (\<lambda>m. (score m, source m)) (take 5 (all_matches (analysis env tr doc db)))"
  "banners (trace (analysis env tr doc db)) =
     banners tr @ banners (fst (results_display (all_matches (analysis env tr doc db))))"
proof -
  obtain internal tr1 srcs tr2 web tr3 where s:
    "internal_check env doc db [] (tr @ [St_divider, St_subheader_report]) = (internal, tr1)"
    "deep_web_search env tr1 doc 3 = (srcs, tr2)"
    "web_check env doc srcs [] tr2 = (web, tr3)"
    and r: "analysis env tr doc db =
      \<lparr>internal_matches = internal, web_matches = web,
       all_matches = sorted_reverse score (internal @ web),
       max_score = snd (results_display (sorted_reverse score (internal @ web))),
       trace = tr3 @ fst (results_display (sorted_reverse score (internal @ web)))\<rparr>"
    by (rule analysis_stages)
  have r1: "searched tr1 = searched tr" "scored tr1 = scored tr @ map (\<lambda>(n, f, c). (doc, c)) db"
    "listed tr1 = listed tr" "banners tr1 = banners tr"
    using internal_check_reads [of env doc db "[]" "tr @ [St_divider, St_subheader_report]"]
    by (simp_all add: s reads_append)
  have r2: "searched tr2 = searched tr1 @ map (take 200) (long_sentences doc 3)"
    "scored tr2 = scored tr1" "listed tr2 = listed tr1" "banners tr2 = banners tr1"
    using deep_web_search_reads [of env tr1 doc 3] by (simp_all add: s)
  have r3: "searched tr3 = searched tr2"
    "scored tr3 = scored tr2 @ map (\<lambda>s. (doc, ev_content s)) srcs"
    "listed tr3 = listed tr2" "banners tr3 = banners tr2"
    using web_check_reads [of env doc srcs "[]" tr2] by (simp_all add: s)
  show "searched (trace (analysis env tr doc db)) =
     searched tr @ map (take 200) (long_sentences doc 3)"
    by (simp add: r reads_append results_display_reads r1 r2 r3)
  have "scored (trace (analysis env tr doc db)) =
     scored tr @ map (\<lambda>(n, f, c). (doc, c)) db @ map (\<lambda>s. (doc, ev_content s)) srcs"
    by (simp add: r reads_append results_display_reads r1 r2 r3)
  then show "\<exists>srcs :: evidence list. scored (trace (analysis env tr doc db)) =
     scored tr @ map (\<lambda>(n, f, c). (doc, c)) db @ map (\<lambda>s. (doc, ev_content s)) srcs"
    by blast
  show "listed (trace (analysis env tr doc db)) =
     listed tr @ map (\<lambda>m. (score m, source m)) (take 5 (all_matches (analysis env tr doc db)))"
    by (simp add: r reads_append results_display_reads r1 r2 r3)
  show "banners (trace (analysis env tr doc db)) =
     banners tr @ banners (fst (results_display (all_matches (analysis env tr doc db))))"
    by (simp add: r reads_append r1 r2 r3)
qed

lemma analysis_sorted:
  "sorted_wrt (\<lambda>a b. score b \<le> score a) (all_matches (analysis env tr doc db))"
  by (subst analysis_all_matches) (rule sorted_reverse_descending)

lemma analysis_all_above:
  "m \<in> set (all_matches (analysis env tr doc db)) \<Longrightarrow> score m > 0.3"
proof -
  assume "m \<in> set (all_matches (analysis env tr doc db))"
  then have "m \<in> set (internal_matches (analysis env tr doc db))
           \<or> m \<in> set (web_matches (analysis env tr doc db))"
    by (subst (asm) analysis_all_matches) (simp add: set_sorted_reverse)
  then show ?thesis
    using analysis_thresholds [of m env tr doc db] by auto
qed

lemma rigorous_check_short:
  "length doc < 50 \<Longrightarrow> rigorous_check env tr doc db = (None, tr @ [St_error_too_short])"
  by (simp add: rigorous_check_def)

lemma rigorous_check_long:
  "50 \<le> length doc \<Longrightarrow>
     rigorous_check env tr doc db = (Some (analysis env tr doc db), trace (analysis env tr doc db))"
  by (simp add: rigorous_check_def Let_def)

lemma extract_text_failure:
  assumes "(file_ext f = ''pdf'' \<and> (PdfReader env (upload_data f) = Inl e
              \<or> (\<exists>pages. PdfReader env (upload_data f) = Inr pages \<and> pdf_pages [] pages = Inl e)))
         \<or> (file_ext f = ''docx'' \<and> Document env (upload_data f) = Inl e)"
  shows "extract_text env f = Inr (str e)"
  using assms
  by (auto simp: extract_text_def extract_text_from_pdf_def extract_text_from_docx_def)

lemma init_db_Some: "\<exists>t. init_db db = Some t"
  by (cases db) (simp_all add: init_db_def)

subsection \<open>The sample run\<close>

lemma demo_env_fields:
  "PdfReader demo_env = (\<lambda>d. Inl (Exception ''EOF marker not found while reading the cross-reference table''))"
  "Document demo_env = (\<lambda>d. Inl (Exception ''Package not found''))"
  "decode_utf8 demo_env = Inr"
  "ddgs_text demo_env = (\<lambda>tr q n. Inr [[''href'' \<mapsto> ''http://a.example/''],
                                   [''href'' \<mapsto> ''http://b.example/'']])"
  "requests_get demo_env = (\<lambda>tr url.
         if url = ''http://a.example/''
           then Inr \<lparr>status_code = 404, body = ''Not Found  The page is gone''\<rparr>
         else if url = ''http://c.example/'' then Inr \<lparr>status_code = 200, body = []\<rparr>
         else Inl (Exception ''timed out''))"
  "soup_get_text demo_env = (\<lambda>b. if b = [] then Inl (Exception ''no markup'') else Inr b)"
  "set_order demo_env = length"
  "cos_sim demo_env = (\<lambda>a b. if b = ''An archived essay about foxes and dogs.'' then 0.45 else 0.35)"
  by (simp_all add: demo_env_def)

lemmas string_defs =
  isspace_def isword_def isupper_az_def islower_az_def islinebreak_def ord_def push_char_def
  strip_def

lemma demo_lengths: "length demo_doc = 144" "length plain_doc = 58"
  by (simp_all add: demo_doc_def plain_doc_def)

lemma demo_long_sentences:
  "long_sentences demo_doc 3 =
     [''Is a second sentence, e.g. this one, also long enough to be a query?'',
      ''The quick brown fox jumps over the lazy dog near the river bank.'']"
  by (simp add: demo_doc_def long_sentences_def re_split_def sentence_end_def string_defs
      slice_to_def sorted_reverse_def)

lemma plain_long_sentences: "long_sentences plain_doc 3 = []"
  by (simp add: plain_doc_def long_sentences_def re_split_def sentence_end_def string_defs
      slice_to_def sorted_reverse_def)

lemma demo_pdf_message:
  "long_sentences ''EOF marker not found while reading the cross-reference table'' 3 =
     [''EOF marker not found while reading the cross-reference table'']"
  by (simp add: long_sentences_def re_split_def sentence_end_def string_defs
      slice_to_def sorted_reverse_def)

lemma demo_clean_text:
  "clean_text ''Not Found  The page is gone'' = ''Not Found'' @ [CHR 0x0A] @ ''The page is gone''"
  by (simp add: clean_text_def string_defs)

lemma demo_scrape:
  "scrape_url_content demo_env tr ''http://a.example/'' =
     (''Not Found'' @ [CHR 0x0A] @ ''The page is gone'', tr @ [Requests_get ''http://a.example/''])"
  "scrape_url_content demo_env tr ''http://b.example/'' =
     ([], tr @ [Requests_get ''http://b.example/''])"
  "scrape_url_content demo_env tr ''http://c.example/'' =
     ([], tr @ [Requests_get ''http://c.example/''])"
  by (simp_all add: scrape_url_content_def scrape_try_def demo_env_fields demo_clean_text)

lemma demo_search_loop:
  "search_loop demo_env
     [''Is a second sentence, e.g. this one, also long enough to be a query?'',
      ''The quick brown fox jumps over the lazy dog near the river bank.''] [] tr =
   ([''http://a.example/'', ''http://b.example/'', ''http://a.example/'', ''http://b.example/''],
    tr @ [Ddgs_text ''Is a second sentence, e.g. this one, also long enough to be a query?'' 2,
          Sleep,
          Ddgs_text ''The quick brown fox jumps over the lazy dog near the river bank.'' 2,
          Sleep])"
  by (simp add: demo_env_fields)

lemma demo_collected_sources:
  "collected_sources demo_env tr demo_doc 3 =
     [''http://a.example/'', ''http://b.example/'', ''http://a.example/'', ''http://b.example/'']"
  by (simp add: collected_sources_def demo_long_sentences demo_search_loop
      del: search_loop.simps)

lemma demo_deep_web_search:
  "deep_web_search demo_env tr demo_doc 3 =
     ([\<lparr>ev_source = ''http://a.example/'',
        ev_content = ''Not Found'' @ [CHR 0x0A] @ ''The page is gone'', ev_type = ''Web''\<rparr>],
      tr @ [Ddgs_text ''Is a second sentence, e.g. this one, also long enough to be a query?'' 2,
            Sleep,
            Ddgs_text ''The quick brown fox jumps over the lazy dog near the river bank.'' 2,
            Sleep, St_progress,
            Requests_get ''http://a.example/'', St_bar_progress 1 2 ''http://a.example/'',
            Requests_get ''http://b.example/'', St_bar_progress 2 2 ''http://b.example/'',
            St_bar_empty])"
  by (simp add: deep_web_search_def demo_long_sentences demo_search_loop list_set_def
      demo_env_fields(7) demo_scrape del: search_loop.simps)

lemma plain_deep_web_search: "deep_web_search demo_env tr plain_doc 3 = ([], tr)"
  by (simp add: deep_web_search_def plain_long_sentences list_set_def)

lemma demo_analysis:
  "analysis demo_env [] demo_doc demo_db_data =
    \<lparr>internal_matches = [\<lparr>source = ''Internal: ann (a.txt)'', score = 0.45\<rparr>],
     web_matches = [\<lparr>source = ''http://a.example/'', score = 0.35\<rparr>],
     all_matches = [\<lparr>source = ''Internal: ann (a.txt)'', score = 0.45\<rparr>,
                    \<lparr>source = ''http://a.example/'', score = 0.35\<rparr>],
     max_score = 0.45,
     trace =
       [St_divider, St_subheader_report,
        Similarity demo_doc ''An archived essay about foxes and dogs.'',
        Ddgs_text ''Is a second sentence, e.g. this one, also long enough to be a query?'' 2,
        Sleep,
        Ddgs_text ''The quick brown fox jumps over the lazy dog near the river bank.'' 2,
        Sleep, St_progress,
        Requests_get ''http://a.example/'', St_bar_progress 1 2 ''http://a.example/'',
        Requests_get ''http://b.example/'', St_bar_progress 2 2 ''http://b.example/'',
        St_bar_empty,
        Similarity demo_doc (''Not Found'' @ [CHR 0x0A] @ ''The page is gone''),
        St_write_top_sources,
        St_progress_match 0.45 ''Internal: ann (a.txt)'',
        St_progress_match 0.35 ''http://a.example/'']\<rparr>"
  by (simp add: analysis_def demo_db_data_def demo_deep_web_search demo_env_fields(8)
      sorted_reverse_def results_display_def Let_def)

lemma plain_analysis:
  "analysis demo_env [] plain_doc [] =
    \<lparr>internal_matches = [], web_matches = [], all_matches = [], max_score = 0,
     trace = [St_divider, St_subheader_report, St_success_clean]\<rparr>"
  by (simp add: analysis_def plain_deep_web_search sorted_reverse_def results_display_def)

lemma demo_file_ext:
  "file_ext demo_pdf = ''pdf''" "file_ext demo_docx = ''docx''" "file_ext demo_txt = ''txt''"
  by code_simp+

lemma demo_txt_data:
  "upload_data demo_txt = ''EOF marker not found while reading the cross-reference table''"
  by (simp add: demo_txt_def)

lemma demo_init_db: "init_db demo_db = demo_db" "init_db None = Some \<lparr>rows = [], seq = 0\<rparr>"
  by (simp_all add: init_db_def demo_db_def)

lemma demo_archive:
  "archive demo_db = [\<lparr>sub_id = 1, student_name = ''ann'', filename = ''a.txt'',
                       content = ''An essay.'', content_hash = ''An essay.''\<rparr>]"
  "archive (Some \<lparr>rows = [], seq = 0\<rparr>) = []"
  by (simp_all add: archive_def demo_db_def)

subsection \<open>The claims\<close>

text \<open>
  C1, as the code has it. The severity banner of a run is determined by the sorted match
  list and its top score \<open>max_score\<close>, which is 0 when no match passed the thresholds:
  above 0.8 the critical banner is shown, above 0.5 and up to 0.8 the moderate banner,
  and the clean banner exactly when the match list is empty, that is when \<open>max_score\<close>
  is 0. When matches passed and the top score is at most 0.5, no banner is shown; the
  matches are only listed. \<open>max_score\<close> is the largest score of the list.
\<close>

theorem severity_banner:
  "banners (trace (analysis env tr doc db)) = banners tr @
     (if max_score (analysis env tr doc db) > 0.8
        then [St_error_critical (max_score (analysis env tr doc db))]
      else if max_score (analysis env tr doc db) > 0.5
        then [St_warning_moderate (max_score (analysis env tr doc db))]
      else if all_matches (analysis env tr doc db) = [] then [St_success_clean]
      else [])
 \<and> (all_matches (analysis env tr doc db) = [] \<longleftrightarrow> max_score (analysis env tr doc db) = 0)
 \<and> (\<forall>m \<in> set (all_matches (analysis env tr doc db)).
       score m \<le> max_score (analysis env tr doc db))
 \<and> (all_matches (analysis env tr doc db) \<noteq> [] \<longrightarrow>
       (\<exists>m \<in> set (all_matches (analysis env tr doc db)).
          score m = max_score (analysis env tr doc db)))"
proof (cases "all_matches (analysis env tr doc db)")
  case Nil
  then show ?thesis
    by (simp add: analysis_reads(4) results_display_banners analysis_max_score)
next
  case (Cons m ms)
  have mx: "max_score (analysis env tr doc db) = score m"
    by (simp add: analysis_max_score Cons)
  have pos: "score m > 0.3"
    using analysis_all_above [of m env tr doc db] by (simp add: Cons)
  have le: "score x \<le> score m" if "x \<in> set (m # ms)" for x
    using analysis_sorted [of env tr doc db] that by (auto simp: Cons)
  have b: "banners (trace (analysis env tr doc db)) = banners tr @
     (if score m > 0.8 then [St_error_critical (score m)]
      else if score m > 0.5 then [St_warning_moderate (score m)] else [])"
    by (simp add: analysis_reads(4) results_display_banners Cons)
  show ?thesis
    unfolding mx b using pos le by (auto simp: Cons)
qed

theorem severity_banner_witness:
  "banners (trace (analysis demo_env [] demo_doc demo_db_data)) = []
 \<and> max_score (analysis demo_env [] demo_doc demo_db_data) = 0.45
 \<and> all_matches (analysis demo_env [] demo_doc demo_db_data) \<noteq> []
 \<and> banners (trace (analysis demo_env [] plain_doc [])) = [St_success_clean]
 \<and> max_score (analysis demo_env [] plain_doc []) = 0
 \<and> all_matches (analysis demo_env [] plain_doc []) = []"
  using severity_banner [of demo_env "[]" demo_doc demo_db_data]
    severity_banner [of demo_env "[]" plain_doc "[]"]
  by (simp add: demo_analysis plain_analysis)

text \<open>
  C1, as the claim states it, fails: in the sample run the top score is 0.45, which is at
  most 0.5, and the clean banner is not shown.
\<close>

theorem severity_clean_counterexample:
  "50 \<le> length demo_doc
 \<and> fst (rigorous_check demo_env [] demo_doc demo_db_data) =
     Some (analysis demo_env [] demo_doc demo_db_data)
 \<and> max_score (analysis demo_env [] demo_doc demo_db_data) \<le> 0.5
 \<and> St_success_clean \<notin> set (snd (rigorous_check demo_env [] demo_doc demo_db_data))"
  by (simp add: rigorous_check_long demo_lengths demo_analysis)

text \<open>
  C2. For a count \<open>num_queries\<close> that is not negative, the queries are sentence units of
  more than 40 characters, in descending order of length, as many as \<open>num_queries\<close> or
  all of them if there are fewer, and no unit left out is longer than one taken. The
  strings sent to the search provider are these queries, in this order, each cut to its
  first 200 characters. A text without a unit of more than 40 characters gives no query
  and no search.
\<close>

theorem query_derivation:
  "0 \<le> n \<Longrightarrow>
     (\<exists>rest. mset (long_sentences doc n @ rest) =
               mset (filter (\<lambda>s. length s > 40) (re_split doc))
           \<and> (\<forall>q \<in> set (long_sentences doc n). \<forall>s \<in> set rest. length s \<le> length q))
   \<and> sorted_wrt (\<lambda>a b. length b \<le> length a) (long_sentences doc n)
   \<and> length (long_sentences doc n) =
       min (nat n) (length (filter (\<lambda>s. length s > 40) (re_split doc)))
   \<and> searched (snd (deep_web_search env tr doc n)) =
       searched tr @ map (take 200) (long_sentences doc n)
   \<and> (\<forall>q \<in> set (map (take 200) (long_sentences doc n)). length q \<le> 200)
   \<and> (filter (\<lambda>s. length s > 40) (re_split doc) = [] \<longrightarrow>
        long_sentences doc n = [] \<and> searched (snd (deep_web_search env tr doc n)) = searched tr)"
proof -
  assume n: "0 \<le> n"
  define units where "units = filter (\<lambda>s. length s > 40) (re_split doc)"
  define ranked where "ranked = sorted_reverse length units"
  have ls: "long_sentences doc n = take (nat n) ranked"
    using n by (simp add: long_sentences_take ranked_def units_def)
  have srt: "sorted_wrt (\<lambda>a b. length b \<le> length a) ranked"
    unfolding ranked_def by (rule sorted_reverse_descending)
  have "mset (take (nat n) ranked @ drop (nat n) ranked) = mset units"
    by (simp add: ranked_def mset_sorted_reverse)
  moreover have "\<forall>q \<in> set (take (nat n) ranked). \<forall>s \<in> set (drop (nat n) ranked).
      length s \<le> length q"
    using sorted_wrt_take_drop [OF srt] by blast
  ultimately have top: "\<exists>rest. mset (long_sentences doc n @ rest) = mset units
      \<and> (\<forall>q \<in> set (long_sentences doc n). \<forall>s \<in> set rest. length s \<le> length q)"
    unfolding ls by blast
  have s2: "sorted_wrt (\<lambda>a b. length b \<le> length a) (long_sentences doc n)"
    unfolding ls using srt by (rule sorted_wrt_take)
  have len: "length (long_sentences doc n) = min (nat n) (length units)"
    by (simp add: ls ranked_def length_sorted_reverse min.commute)
  have sr: "searched (snd (deep_web_search env tr doc n)) =
       searched tr @ map (take 200) (long_sentences doc n)"
    using deep_web_search_reads [of env tr doc n] by simp
  have none: "long_sentences doc n = []" if "units = []"
    using that by (simp add: ls ranked_def sorted_reverse_def)
  show ?thesis
    using top s2 len sr none unfolding units_def by auto
qed

theorem query_derivation_witness:
  "(0::int) \<le> 3
 \<and> long_sentences demo_doc 3 =
     [''Is a second sentence, e.g. this one, also long enough to be a query?'',
      ''The quick brown fox jumps over the lazy dog near the river bank.'']
 \<and> searched (snd (deep_web_search demo_env [] demo_doc 3)) =
     [''Is a second sentence, e.g. this one, also long enough to be a query?'',
      ''The quick brown fox jumps over the lazy dog near the river bank.'']
 \<and> sorted_wrt (\<lambda>a b. length b \<le> length a) (long_sentences demo_doc 3)
 \<and> long_sentences plain_doc 3 = []
 \<and> searched (snd (deep_web_search demo_env [] plain_doc 3)) = []"
  using query_derivation [of 3 demo_doc demo_env "[]"]
    query_derivation [of 3 plain_doc demo_env "[]"]
  by (simp add: demo_long_sentences plain_long_sentences)

text \<open>
  C3. Every match kept from the archive has a score above 0.4 and every match kept from
  the web a score above 0.3; the merged list holds exactly these matches, so none of its
  scores is at or below 0.3.
\<close>

theorem matches_above_threshold:
  "(\<forall>m \<in> set (internal_matches (analysis env tr doc db)). score m > 0.4)
 \<and> (\<forall>m \<in> set (web_matches (analysis env tr doc db)). score m > 0.3)
 \<and> set (all_matches (analysis env tr doc db)) =
     set (internal_matches (analysis env tr doc db)) \<union> set (web_matches (analysis env tr doc db))
 \<and> (\<forall>m \<in> set (all_matches (analysis env tr doc db)). score m > 0.3)"
proof -
  have a: "set (all_matches (analysis env tr doc db)) =
     set (internal_matches (analysis env tr doc db)) \<union> set (web_matches (analysis env tr doc db))"
    by (subst analysis_all_matches) (simp add: set_sorted_reverse)
  have b: "score m > 0.3" if "m \<in> set (all_matches (analysis env tr doc db))" for m
    using that analysis_thresholds [of m env tr doc db] unfolding a by auto
  show ?thesis
    using a b analysis_thresholds [of _ env tr doc db] by blast
qed

theorem matches_above_threshold_witness:
  "internal_matches (analysis demo_env [] demo_doc demo_db_data) =
     [\<lparr>source = ''Internal: ann (a.txt)'', score = 0.45\<rparr>]
 \<and> web_matches (analysis demo_env [] demo_doc demo_db_data) =
     [\<lparr>source = ''http://a.example/'', score = 0.35\<rparr>]
 \<and> all_matches (analysis demo_env [] demo_doc demo_db_data) =
     [\<lparr>source = ''Internal: ann (a.txt)'', score = 0.45\<rparr>,
      \<lparr>source = ''http://a.example/'', score = 0.35\<rparr>]
 \<and> 0.4 < score \<lparr>source = ''Internal: ann (a.txt)'', score = 0.45\<rparr>
 \<and> 0.3 < score \<lparr>source = ''http://a.example/'', score = 0.35\<rparr>"
  using matches_above_threshold [of demo_env "[]" demo_doc demo_db_data]
  by (simp add: demo_analysis)

text \<open>
  C4. \<open>scrape_url_content\<close> returns a string in every case: when the request raises, when
  the parser raises, and whenever the body of its \<open>try\<close> raises, that string is empty;
  when both succeed it is the cleaned page text cut to 10000 characters. Its length never
  exceeds 10000.
\<close>

theorem scraper_never_raises:
  "(requests_get env tr url = Inl e \<longrightarrow> fst (scrape_url_content env tr url) = [])
 \<and> (requests_get env tr url = Inr resp \<and> soup_get_text env (body resp) = Inl e \<longrightarrow>
      fst (scrape_url_content env tr url) = [])
 \<and> (scrape_try env tr url = Inl e \<longrightarrow> fst (scrape_url_content env tr url) = [])
 \<and> (requests_get env tr url = Inr resp \<and> soup_get_text env (body resp) = Inr page \<longrightarrow>
      fst (scrape_url_content env tr url) = take 10000 (clean_text page))
 \<and> length (fst (scrape_url_content env tr url)) \<le> 10000"
  by (auto simp: scrape_url_content_def scrape_try_def split: sum.splits)

theorem scraper_never_raises_witness:
  "requests_get demo_env [] ''http://b.example/'' = Inl (Exception ''timed out'')
 \<and> fst (scrape_url_content demo_env [] ''http://b.example/'') = []
 \<and> requests_get demo_env [] ''http://c.example/'' = Inr \<lparr>status_code = 200, body = []\<rparr>
 \<and> soup_get_text demo_env [] = Inl (Exception ''no markup'')
 \<and> fst (scrape_url_content demo_env [] ''http://c.example/'') = []
 \<and> requests_get demo_env [] ''http://a.example/'' =
     Inr \<lparr>status_code = 404, body = ''Not Found  The page is gone''\<rparr>
 \<and> soup_get_text demo_env ''Not Found  The page is gone'' = Inr ''Not Found  The page is gone''
 \<and> fst (scrape_url_content demo_env [] ''http://a.example/'') =
     ''Not Found'' @ [CHR 0x0A] @ ''The page is gone''
 \<and> length (fst (scrape_url_content demo_env [] ''http://a.example/'')) \<le> 10000"
  using scraper_never_raises [of demo_env "[]" "''http://b.example/''" "Exception ''timed out''"]
    scraper_never_raises [of demo_env "[]" "''http://c.example/''" "Exception ''no markup''"
      "\<lparr>status_code = 200, body = []\<rparr>"]
    scraper_never_raises [of demo_env "[]" "''http://a.example/''" _
      "\<lparr>status_code = 404, body = ''Not Found  The page is gone''\<rparr>"
      "''Not Found  The page is gone''"]
  by (simp add: demo_env_fields demo_clean_text)

text \<open>
  C5. The addresses requested during one web search are pairwise distinct, they are
  exactly the addresses the search results held, and they are at most as many as the
  results.
\<close>

theorem urls_fetched_once:
  "\<exists>urls. fetched (snd (deep_web_search env tr doc n)) = fetched tr @ urls
        \<and> distinct urls
        \<and> set urls = set (collected_sources env tr doc n)
        \<and> length urls \<le> length (collected_sources env tr doc n)"
proof -
  have "fetched (snd (deep_web_search env tr doc n)) =
      fetched tr @ list_set env (collected_sources env tr doc n)"
    using deep_web_search_reads [of env tr doc n] by simp
  moreover have "distinct (list_set env (collected_sources env tr doc n))"
    by (simp add: list_set_def)
  moreover have "set (list_set env (collected_sources env tr doc n)) =
      set (collected_sources env tr doc n)"
    by (simp add: list_set_def)
  moreover have "length (list_set env (collected_sources env tr doc n)) \<le>
      length (collected_sources env tr doc n)"
    by (simp add: list_set_def length_remdups_leq)
  ultimately show ?thesis by blast
qed

theorem urls_fetched_once_witness:
  "collected_sources demo_env [] demo_doc 3 =
     [''http://a.example/'', ''http://b.example/'', ''http://a.example/'', ''http://b.example/'']
 \<and> fetched (snd (deep_web_search demo_env [] demo_doc 3)) =
     [''http://a.example/'', ''http://b.example/'']
 \<and> distinct (fetched (snd (deep_web_search demo_env [] demo_doc 3)))
 \<and> set (fetched (snd (deep_web_search demo_env [] demo_doc 3))) =
     set (collected_sources demo_env [] demo_doc 3)"
  using urls_fetched_once [of demo_env "[]" demo_doc 3]
  by (simp add: demo_collected_sources demo_deep_web_search)

text \<open>
  C6. On an initialised database, \<open>save_to_db\<close> returns \<open>False\<close> exactly when the hash of
  the text is the hash of an archived row. Then the database is unchanged. Otherwise it
  returns \<open>True\<close> and the archive is the old one followed by one row, which holds the
  name, the file name, the text and its hash.
\<close>

theorem save_to_db_unique:
  "(fst (save_to_db md5 name file_name text (init_db db)) = Inr False
      \<longleftrightarrow> md5 text \<in> content_hash ` set (archive (init_db db)))
   \<and> (fst (save_to_db md5 name file_name text (init_db db)) = Inr False
      \<longrightarrow> snd (save_to_db md5 name file_name text (init_db db)) = init_db db)
   \<and> (fst (save_to_db md5 name file_name text (init_db db)) \<noteq> Inr False
      \<longrightarrow> fst (save_to_db md5 name file_name text (init_db db)) = Inr True
        \<and> (\<exists>i. archive (snd (save_to_db md5 name file_name text (init_db db))) =
                archive (init_db db) @
                [\<lparr>sub_id = i, student_name = name, filename = file_name,
                  content = text, content_hash = md5 text\<rparr>]))"
proof -
  obtain t where t: "init_db db = Some t"
    using init_db_Some [of db] by auto
  show ?thesis
    unfolding t by (simp add: save_to_db_def archive_def Let_def)
qed

theorem save_to_db_unique_witness:
  "fst (save_to_db (\<lambda>s. s) ''bob'' ''b.txt'' ''An essay.'' (init_db demo_db)) = Inr False
 \<and> snd (save_to_db (\<lambda>s. s) ''bob'' ''b.txt'' ''An essay.'' (init_db demo_db)) = demo_db
 \<and> fst (save_to_db (\<lambda>s. s) ''bob'' ''b.txt'' ''An essay.'' (init_db None)) = Inr True
 \<and> (\<exists>i. archive (snd (save_to_db (\<lambda>s. s) ''bob'' ''b.txt'' ''An essay.'' (init_db None))) =
     [\<lparr>sub_id = i, student_name = ''bob'', filename = ''b.txt'',
       content = ''An essay.'', content_hash = ''An essay.''\<rparr>])"
proof -
  note dup = save_to_db_unique [of "\<lambda>s. s" "''bob''" "''b.txt''" "''An essay.''" demo_db]
  note new = save_to_db_unique [of "\<lambda>s. s" "''bob''" "''b.txt''" "''An essay.''" None]
  have old: "''An essay.'' \<in> content_hash ` set (archive (init_db demo_db))"
    by (simp add: demo_init_db demo_archive)
  have fresh: "''An essay.'' \<notin> content_hash ` set (archive (init_db None))"
    by (simp add: demo_init_db demo_archive)
  have a: "fst (save_to_db (\<lambda>s. s) ''bob'' ''b.txt'' ''An essay.'' (init_db demo_db)) = Inr False"
    using dup old by blast
  have b: "snd (save_to_db (\<lambda>s. s) ''bob'' ''b.txt'' ''An essay.'' (init_db demo_db)) = demo_db"
    using dup a by (simp only: demo_init_db)
  have c: "fst (save_to_db (\<lambda>s. s) ''bob'' ''b.txt'' ''An essay.'' (init_db None)) \<noteq> Inr False"
    using new fresh by blast
  have d: "fst (save_to_db (\<lambda>s. s) ''bob'' ''b.txt'' ''An essay.'' (init_db None)) = Inr True"
    using new c by blast
  have e: "\<exists>i. archive (snd (save_to_db (\<lambda>s. s) ''bob'' ''b.txt'' ''An essay.'' (init_db None))) =
     archive (init_db None) @
     [\<lparr>sub_id = i, student_name = ''bob'', filename = ''b.txt'',
       content = ''An essay.'', content_hash = ''An essay.''\<rparr>]"
    using new c by blast
  have "archive (init_db None) = []"
    by (simp add: demo_init_db demo_archive)
  with e have f: "\<exists>i. archive (snd (save_to_db (\<lambda>s. s) ''bob'' ''b.txt'' ''An essay.'' (init_db None))) =
     [\<lparr>sub_id = i, student_name = ''bob'', filename = ''b.txt'',
       content = ''An essay.'', content_hash = ''An essay.''\<rparr>]"
    by simp
  show ?thesis
    using a b d f by blast
qed

text \<open>
  C7. A text of fewer than 50 characters only produces the error message: the check adds
  no similarity call, no search and no page request to the trace. A text of 50 characters
  or more is analysed: it is scored against every archived text and its queries are sent
  to the search provider.
\<close>

theorem short_text_rejected:
  "(length doc < 50 \<longrightarrow>
      rigorous_check env tr doc db = (None, tr @ [St_error_too_short])
    \<and> scored (snd (rigorous_check env tr doc db)) = scored tr
    \<and> searched (snd (rigorous_check env tr doc db)) = searched tr
    \<and> fetched (snd (rigorous_check env tr doc db)) = fetched tr)
 \<and> (50 \<le> length doc \<longrightarrow>
      rigorous_check env tr doc db =
        (Some (analysis env tr doc db), trace (analysis env tr doc db))
    \<and> searched (trace (analysis env tr doc db)) =
        searched tr @ map (take 200) (long_sentences doc 3)
    \<and> (\<exists>srcs :: evidence list. scored (trace (analysis env tr doc db)) =
          scored tr @ map (\<lambda>(n, f, c). (doc, c)) db @ map (\<lambda>s. (doc, ev_content s)) srcs))"
proof (cases "length doc < 50")
  case True
  then show ?thesis
    by (simp add: rigorous_check_short reads_append)
next
  case False
  then have l: "50 \<le> length doc" by simp
  show ?thesis
    using l analysis_reads(2) [of env tr doc db]
    by (simp add: rigorous_check_long analysis_reads(1))
qed

theorem short_text_rejected_witness:
  "length short_doc < 50
 \<and> rigorous_check demo_env [] short_doc demo_db_data = (None, [St_error_too_short])
 \<and> scored (snd (rigorous_check demo_env [] short_doc demo_db_data)) = []
 \<and> searched (snd (rigorous_check demo_env [] short_doc demo_db_data)) = []
 \<and> fetched (snd (rigorous_check demo_env [] short_doc demo_db_data)) = []
 \<and> 50 \<le> length demo_doc
 \<and> rigorous_check demo_env [] demo_doc demo_db_data =
     (Some (analysis demo_env [] demo_doc demo_db_data),
      trace (analysis demo_env [] demo_doc demo_db_data))
 \<and> searched (trace (analysis demo_env [] demo_doc demo_db_data)) =
     [''Is a second sentence, e.g. this one, also long enough to be a query?'',
      ''The quick brown fox jumps over the lazy dog near the river bank.'']"
proof -
  have a: "length short_doc < 50"
    by (simp add: short_doc_def)
  have b: "50 \<le> length demo_doc"
    by (simp add: demo_lengths)
  show ?thesis
    using a b short_text_rejected [of short_doc demo_env "[]" demo_db_data]
      short_text_rejected [of demo_doc demo_env "[]" demo_db_data]
    by (simp add: demo_long_sentences)
qed

text \<open>
  C8. The match list of a report holds the archive matches and the web matches, each as
  often as it was kept, in descending order of score; the matches listed on the page are
  the first five of this list, or all of them if there are fewer.
\<close>

theorem ranked_top_five:
  "mset (all_matches (analysis env tr doc db)) =
     mset (internal_matches (analysis env tr doc db)) + mset (web_matches (analysis env tr doc db))
 \<and> sorted_wrt (\<lambda>a b. score b \<le> score a) (all_matches (analysis env tr doc db))
 \<and> listed (trace (analysis env tr doc db)) =
     listed tr @ map (\<lambda>m. (score m, source m)) (take 5 (all_matches (analysis env tr doc db)))
 \<and> length (listed (trace (analysis env tr doc db))) \<le> length (listed tr) + 5"
proof -
  have a: "mset (all_matches (analysis env tr doc db)) =
     mset (internal_matches (analysis env tr doc db)) + mset (web_matches (analysis env tr doc db))"
    by (subst analysis_all_matches) (simp add: mset_sorted_reverse)
  show ?thesis
    using a analysis_sorted [of env tr doc db] by (simp add: analysis_reads(3))
qed

theorem ranked_top_five_witness:
  "all_matches (analysis demo_env [] demo_doc demo_db_data) =
     [\<lparr>source = ''Internal: ann (a.txt)'', score = 0.45\<rparr>,
      \<lparr>source = ''http://a.example/'', score = 0.35\<rparr>]
 \<and> sorted_wrt (\<lambda>a b. score b \<le> score a) (all_matches (analysis demo_env [] demo_doc demo_db_data))
 \<and> listed (trace (analysis demo_env [] demo_doc demo_db_data)) =
     [(0.45, ''Internal: ann (a.txt)''), (0.35, ''http://a.example/'')]"
  using ranked_top_five [of demo_env "[]" demo_doc demo_db_data]
  by (simp add: demo_analysis)

text \<open>
  C9. When reading a PDF raises (opening it or extracting a page), or opening a DOCX
  raises, the extracted text is the message of the exception. The check then runs on the
  message: with 50 characters or more it is analysed, scored against every archived text
  and searched on the web, and the upload behaves as a plain text file with the message
  as its content does.
\<close>

theorem extraction_error_as_document:
  assumes "student \<noteq> []"
    and "(file_ext f = ''pdf'' \<and> (PdfReader env (upload_data f) = Inl e
              \<or> (\<exists>pages. PdfReader env (upload_data f) = Inr pages \<and> pdf_pages [] pages = Inl e)))
         \<or> (file_ext f = ''docx'' \<and> Document env (upload_data f) = Inl e)"
  shows "extract_text env f = Inr (str e)
       \<and> main_upload env tr student (Some f) True db = Inr (rigorous_check env tr (str e) db)
       \<and> (50 \<le> length (str e) \<longrightarrow>
            rigorous_check env tr (str e) db =
              (Some (analysis env tr (str e) db), trace (analysis env tr (str e) db))
          \<and> searched (trace (analysis env tr (str e) db)) =
              searched tr @ map (take 200) (long_sentences (str e) 3)
          \<and> (\<exists>srcs :: evidence list. scored (trace (analysis env tr (str e) db)) =
                scored tr @ map (\<lambda>(n, f, c). (str e, c)) db
                  @ map (\<lambda>s. (str e, ev_content s)) srcs))
       \<and> (file_ext g \<noteq> ''pdf'' \<and> file_ext g \<noteq> ''docx''
            \<and> decode_utf8 env (upload_data g) = Inr (str e) \<longrightarrow>
          main_upload env tr student (Some f) check_btn db =
            main_upload env tr student (Some g) check_btn db)"
proof -
  have x: "extract_text env f = Inr (str e)"
    using assms(2) by (rule extract_text_failure)
  have m: "main_upload env tr student (Some f) True db = Inr (rigorous_check env tr (str e) db)"
    using assms(1) by (simp add: main_upload_def x)
  have g: "main_upload env tr student (Some f) check_btn db =
      main_upload env tr student (Some g) check_btn db"
    if "file_ext g \<noteq> ''pdf'' \<and> file_ext g \<noteq> ''docx''
        \<and> decode_utf8 env (upload_data g) = Inr (str e)"
  proof -
    have "extract_text env g = Inr (str e)"
      using that by (simp add: extract_text_def)
    then show ?thesis
      by (simp add: main_upload_def x)
  qed
  show ?thesis
    using x m g analysis_reads(2) [of env tr "str e" db]
    by (simp add: rigorous_check_long analysis_reads(1))
qed

theorem extraction_error_as_document_witness:
  "file_ext demo_pdf = ''pdf''
 \<and> PdfReader demo_env (upload_data demo_pdf) =
     Inl (Exception ''EOF marker not found while reading the cross-reference table'')
 \<and> extract_text demo_env demo_pdf =
     Inr ''EOF marker not found while reading the cross-reference table''
 \<and> main_upload demo_env [] ''ann'' (Some demo_pdf) True demo_db_data =
     Inr (Some (analysis demo_env []
                 ''EOF marker not found while reading the cross-reference table'' demo_db_data),
          trace (analysis demo_env []
                 ''EOF marker not found while reading the cross-reference table'' demo_db_data))
 \<and> searched (trace (analysis demo_env []
       ''EOF marker not found while reading the cross-reference table'' demo_db_data)) =
     [''EOF marker not found while reading the cross-reference table'']
 \<and> main_upload demo_env [] ''ann'' (Some demo_pdf) True demo_db_data =
     main_upload demo_env [] ''ann'' (Some demo_txt) True demo_db_data
 \<and> file_ext demo_docx = ''docx''
 \<and> extract_text demo_env demo_docx = Inr ''Package not found''
 \<and> main_upload demo_env [] ''ann'' (Some demo_docx) True demo_db_data =
     Inr (None, [St_error_too_short])"
proof -
  have p: "(file_ext demo_pdf = ''pdf''
      \<and> (PdfReader demo_env (upload_data demo_pdf) =
           Inl (Exception ''EOF marker not found while reading the cross-reference table'')
         \<or> (\<exists>pages. PdfReader demo_env (upload_data demo_pdf) = Inr pages
              \<and> pdf_pages [] pages =
                  Inl (Exception ''EOF marker not found while reading the cross-reference table''))))
    \<or> (file_ext demo_pdf = ''docx''
      \<and> Document demo_env (upload_data demo_pdf) =
          Inl (Exception ''EOF marker not found while reading the cross-reference table''))"
    by (simp add: demo_file_ext demo_env_fields)
  have d: "(file_ext demo_docx = ''pdf''
      \<and> (PdfReader demo_env (upload_data demo_docx) = Inl (Exception ''Package not found'')
         \<or> (\<exists>pages. PdfReader demo_env (upload_data demo_docx) = Inr pages
              \<and> pdf_pages [] pages = Inl (Exception ''Package not found''))))
    \<or> (file_ext demo_docx = ''docx''
      \<and> Document demo_env (upload_data demo_docx) = Inl (Exception ''Package not found''))"
    by (simp add: demo_file_ext demo_env_fields)
  have n: "''ann'' \<noteq> []"
    by simp
  have g: "file_ext demo_txt \<noteq> ''pdf'' \<and> file_ext demo_txt \<noteq> ''docx''
      \<and> decode_utf8 demo_env (upload_data demo_txt) =
          Inr (str (Exception ''EOF marker not found while reading the cross-reference table''))"
    by (simp add: demo_file_ext demo_env_fields demo_txt_data)
  note pdf = extraction_error_as_document [OF n p, of "[]" demo_db_data demo_txt True]
  note docx = extraction_error_as_document [OF n d, of "[]" demo_db_data demo_txt True]
  have l: "50 \<le> length (str (Exception ''EOF marker not found while reading the cross-reference table''))"
    by simp
  have s: "length (str (Exception ''Package not found'')) < 50"
    by simp
  have c1: "file_ext demo_pdf = ''pdf''"
    by (simp add: demo_file_ext)
  have c2: "PdfReader demo_env (upload_data demo_pdf) =
     Inl (Exception ''EOF marker not found while reading the cross-reference table'')"
    by (simp add: demo_env_fields)
  have c3: "extract_text demo_env demo_pdf =
     Inr ''EOF marker not found while reading the cross-reference table''"
    using pdf by simp
  have c4: "main_upload demo_env [] ''ann'' (Some demo_pdf) True demo_db_data =
     Inr (Some (analysis demo_env []
                 ''EOF marker not found while reading the cross-reference table'' demo_db_data),
          trace (analysis demo_env []
                 ''EOF marker not found while reading the cross-reference table'' demo_db_data))"
    using pdf l by simp
  have c5: "searched (trace (analysis demo_env []
       ''EOF marker not found while reading the cross-reference table'' demo_db_data)) =
     [''EOF marker not found while reading the cross-reference table'']"
    using pdf l by (simp add: demo_pdf_message)
  have c6: "main_upload demo_env [] ''ann'' (Some demo_pdf) True demo_db_data =
     main_upload demo_env [] ''ann'' (Some demo_txt) True demo_db_data"
    using pdf g by blast
  have c7: "file_ext demo_docx = ''docx''"
    by (simp add: demo_file_ext)
  have c8: "extract_text demo_env demo_docx = Inr ''Package not found''"
    using docx by simp
  have c9: "main_upload demo_env [] ''ann'' (Some demo_docx) True demo_db_data =
     Inr (None, [St_error_too_short])"
    using docx rigorous_check_short [OF s, of demo_env "[]" demo_db_data] by simp
  show ?thesis
    using c1 c2 c3 c4 c5 c6 c7 c8 c9 by blast
qed

text \<open>
  C10. The result of \<open>scrape_url_content\<close> does not depend on the status code of the
  response: a response that differs only in its status code gives the same result. If
  the parser accepts the body, the cleaned text is returned, and if it is not empty the
  page becomes an evidence item of type Web, whatever the status code was.
\<close>

theorem status_code_ignored:
  assumes "requests_get env tr url = Inr resp"
    and "requests_get env' tr url = Inr (resp\<lparr>status_code := code\<rparr>)"
    and "soup_get_text env' = soup_get_text env"
  shows "scrape_url_content env' tr url = scrape_url_content env tr url
       \<and> (\<forall>page. soup_get_text env (body resp) = Inr page \<longrightarrow>
             fst (scrape_url_content env' tr url) = take 10000 (clean_text page)
           \<and> (clean_text page \<noteq> [] \<longrightarrow>
                fst (scrape_loop env' n i [url] sd tr) =
                  sd @ [\<lparr>ev_source = url, ev_content = take 10000 (clean_text page),
                          ev_type = ''Web''\<rparr>]))"
proof -
  have eq: "scrape_url_content env' tr url = scrape_url_content env tr url"
    using assms by (simp add: scrape_url_content_def scrape_try_def)
  have "fst (scrape_url_content env' tr url) = take 10000 (clean_text page)
      \<and> (clean_text page \<noteq> [] \<longrightarrow>
           fst (scrape_loop env' n i [url] sd tr) =
             sd @ [\<lparr>ev_source = url, ev_content = take 10000 (clean_text page),
                     ev_type = ''Web''\<rparr>])"
    if p: "soup_get_text env (body resp) = Inr page" for page
  proof -
    have s: "scrape_url_content env' tr url =
        (take 10000 (clean_text page), tr @ [Requests_get url])"
      using assms p by (simp add: scrape_url_content_def scrape_try_def)
    show ?thesis
      by (simp add: s)
  qed
  with eq show ?thesis by blast
qed

theorem status_code_ignored_witness:
  "requests_get demo_env [] ''http://a.example/'' =
     Inr \<lparr>status_code = 404, body = ''Not Found  The page is gone''\<rparr>
 \<and> scrape_url_content
       (demo_env\<lparr>requests_get := \<lambda>tr url.
          Inr \<lparr>status_code = 200, body = ''Not Found  The page is gone''\<rparr>\<rparr>)
       [] ''http://a.example/'' =
     scrape_url_content demo_env [] ''http://a.example/''
 \<and> fst (scrape_url_content demo_env [] ''http://a.example/'') =
     ''Not Found'' @ [CHR 0x0A] @ ''The page is gone''
 \<and> fst (scrape_loop demo_env 1 0 [''http://a.example/''] [] []) =
     [\<lparr>ev_source = ''http://a.example/'',
       ev_content = ''Not Found'' @ [CHR 0x0A] @ ''The page is gone'', ev_type = ''Web''\<rparr>]"
  using status_code_ignored [of demo_env "[]" "''http://a.example/''"
      "\<lparr>status_code = 404, body = ''Not Found  The page is gone''\<rparr>"
      "demo_env\<lparr>requests_get := \<lambda>tr url.
          Inr \<lparr>status_code = 200, body = ''Not Found  The page is gone''\<rparr>\<rparr>" 200 1 0 "[]"]
    status_code_ignored [of demo_env "[]" "''http://a.example/''"
      "\<lparr>status_code = 404, body = ''Not Found  The page is gone''\<rparr>" demo_env 404 1 0 "[]"]
  by (simp add: demo_env_fields demo_clean_text)

end
